theory Spec2Isabelle
  imports Complex_Main
begin

section \<open>The model adapter of \<^verbatim>\<open>src/models/llm.py\<close>\<close>

text \<open>
  The module holds one class, \<^verbatim>\<open>LLMModel\<close>: a constructor that looks a provider up in
  \<^verbatim>\<open>LLM_CONFIG\<close> and builds a chat client, an accessor, a key update that rebuilds the
  client, and \<^verbatim>\<open>process_response\<close>, which re-encodes a text and replaces two dashes.

  Python values are modelled as follows. A \<^verbatim>\<open>str\<close> is the list of its code points (natural
  numbers below \<open>0x110000\<close>, lone surrogates included, as in CPython); a \<^verbatim>\<open>bytes\<close> object
  is the list of its bytes. An exception is the left injection of a sum; \<open>ClientError\<close>
  stands for an exception raised inside a constructor of a client library. Objects built
  by a constructor call live in a store and are known by their reference.
\<close>

subsection \<open>Strings, bytes and exceptions\<close>

type_synonym pystr = "nat list"
type_synonym pybytes = "nat list"

datatype error =
  KeyError pystr
| ValueError pystr
| UnicodeEncodeError
| UnicodeDecodeError
| ClientError pystr

text \<open>An ASCII string literal of the source, as a Python string.\<close>

definition str_of :: "string \<Rightarrow> pystr" where
  "str_of s = map of_char s"

text \<open>The values a Python \<^verbatim>\<open>str\<close> can hold: every code point is below \<open>0x110000\<close>.\<close>

definition valid_str :: "pystr \<Rightarrow> bool" where
  "valid_str s = list_all (\<lambda>c. c < 0x110000) s"

subsection \<open>The UTF-8 codec behind \<^verbatim>\<open>str.encode\<close> and \<^verbatim>\<open>bytes.decode\<close>\<close>

text \<open>
  \<^verbatim>\<open>response_content.encode('utf-8', errors='replace')\<close> writes one to four bytes for a
  code point; a surrogate (\<open>U+D800\<close> to \<open>U+DFFF\<close>) cannot be encoded, and the error
  handler decides: \<^verbatim>\<open>'strict'\<close> raises, \<^verbatim>\<open>'replace'\<close> writes one \<^verbatim>\<open>?\<close> for it.
\<close>

datatype errors = Strict | Replace

definition is_surrogate :: "nat \<Rightarrow> bool" where
  "is_surrogate c = (0xD800 \<le> c \<and> c \<le> 0xDFFF)"

definition utf8_char :: "nat \<Rightarrow> pybytes" where
  "utf8_char c =
     (if c < 0x80 then [c]
      else if c < 0x800 then [0xC0 + c div 0x40, 0x80 + c mod 0x40]
      else if c < 0x10000 then
        [0xE0 + c div 0x1000, 0x80 + c div 0x40 mod 0x40, 0x80 + c mod 0x40]
      else
        [0xF0 + c div 0x40000, 0x80 + c div 0x1000 mod 0x40,
         0x80 + c div 0x40 mod 0x40, 0x80 + c mod 0x40])"

fun str_encode :: "errors \<Rightarrow> pystr \<Rightarrow> error + pybytes" where
  "str_encode errs [] = Inr []"
| "str_encode errs (c # cs) =
     (if is_surrogate c then
        (case errs of
           Strict \<Rightarrow> Inl UnicodeEncodeError
         | Replace \<Rightarrow>
             (case str_encode errs cs of Inl e \<Rightarrow> Inl e | Inr bs \<Rightarrow> Inr (0x3F # bs)))
      else
        (case str_encode errs cs of Inl e \<Rightarrow> Inl e | Inr bs \<Rightarrow> Inr (utf8_char c @ bs)))"

text \<open>
  \<^verbatim>\<open>.decode('utf-8')\<close> is strict: it raises on a byte sequence that is not well-formed
  UTF-8 (a stray continuation byte, an overlong form, an encoded surrogate, a value above
  \<open>U+10FFFF\<close>, a truncated sequence). \<open>utf8_decode1\<close> reads one code point.
\<close>

definition is_cont :: "nat \<Rightarrow> bool" where
  "is_cont b = (0x80 \<le> b \<and> b \<le> 0xBF)"

definition utf8_decode1 :: "pybytes \<Rightarrow> (nat \<times> pybytes) option" where
  "utf8_decode1 bs =
     (case bs of
        [] \<Rightarrow> None
      | b0 # r0 \<Rightarrow>
          if b0 < 0x80 then Some (b0, r0)
          else if b0 < 0xC2 then None
          else if b0 < 0xE0 then
            (case r0 of
               b1 # r1 \<Rightarrow>
                 if is_cont b1 then Some ((b0 - 0xC0) * 0x40 + (b1 - 0x80), r1) else None
             | _ \<Rightarrow> None)
          else if b0 < 0xF0 then
            (case r0 of
               b1 # b2 # r2 \<Rightarrow>
                 if (if b0 = 0xE0 then 0xA0 else 0x80) \<le> b1
                    \<and> b1 \<le> (if b0 = 0xED then 0x9F else 0xBF) \<and> is_cont b2
                 then Some ((b0 - 0xE0) * 0x1000 + (b1 - 0x80) * 0x40 + (b2 - 0x80), r2)
                 else None
             | _ \<Rightarrow> None)
          else if b0 < 0xF5 then
            (case r0 of
               b1 # b2 # b3 # r3 \<Rightarrow>
                 if (if b0 = 0xF0 then 0x90 else 0x80) \<le> b1
                    \<and> b1 \<le> (if b0 = 0xF4 then 0x8F else 0xBF) \<and> is_cont b2 \<and> is_cont b3
                 then Some ((b0 - 0xF0) * 0x40000 + (b1 - 0x80) * 0x1000
                            + (b2 - 0x80) * 0x40 + (b3 - 0x80), r3)
                 else None
             | _ \<Rightarrow> None)
          else None)"

lemma utf8_decode1_shorter: "utf8_decode1 bs = Some (c, r) \<Longrightarrow> length r < length bs"
  unfolding utf8_decode1_def
  by (simp split: list.splits if_splits) force+

function bytes_decode :: "pybytes \<Rightarrow> error + pystr" where
  "bytes_decode bs =
     (if bs = [] then Inr []
      else
        (case utf8_decode1 bs of
           None \<Rightarrow> Inl UnicodeDecodeError
         | Some (c, r) \<Rightarrow>
             (case bytes_decode r of Inl e \<Rightarrow> Inl e | Inr cs \<Rightarrow> Inr (c # cs))))"
  by pat_completeness auto
termination
  by (relation "measure length") (auto dest: utf8_decode1_shorter)

declare bytes_decode.simps [simp del]

subsection \<open>\<^verbatim>\<open>str.replace\<close>\<close>

text \<open>
  \<^verbatim>\<open>s.replace(old, new)\<close> replaces the occurrences of \<^verbatim>\<open>old\<close> from left to right, without
  overlap; an empty \<^verbatim>\<open>old\<close> matches before every character and at the end.
\<close>

function str_replace :: "pystr \<Rightarrow> pystr \<Rightarrow> pystr \<Rightarrow> pystr" where
  "str_replace old new s =
     (if old = [] then
        (case s of [] \<Rightarrow> new | c # cs \<Rightarrow> new @ c # str_replace old new cs)
      else if length s < length old then s
      else if take (length old) s = old then new @ str_replace old new (drop (length old) s)
      else hd s # str_replace old new (tl s))"
  by pat_completeness auto
termination
  by (relation "measure (\<lambda>(old, new, s). length s)") (auto simp: neq_Nil_conv)

declare str_replace.simps [simp del]

subsection \<open>\<^verbatim>\<open>LLMModel.process_response\<close>\<close>

text \<open>
  \<^verbatim>\<open>
  response_content = response_content.encode('utf-8', errors='replace').decode('utf-8')
  response_content = response_content.replace('\u2013', '-').replace('\u2014', '--')
  return response_content
  \<close>
  The method reads no attribute of \<^verbatim>\<open>self\<close> and assigns none.
\<close>

definition process_response :: "'self \<Rightarrow> pystr \<Rightarrow> error + pystr" where
  "process_response self response_content =
     (case str_encode Replace response_content of
        Inl e \<Rightarrow> Inl e
      | Inr bs \<Rightarrow>
          (case bytes_decode bs of
             Inl e \<Rightarrow> Inl e
           | Inr rc \<Rightarrow>
               Inr (str_replace [0x2014] (str_of ''--'')
                      (str_replace [0x2013] (str_of ''-'') rc))))"

text \<open>
  What the two passes do to one character of the input: the codec pass turns a surrogate
  into \<^verbatim>\<open>?\<close>, the replacements turn \<open>U+2013\<close> into \<^verbatim>\<open>-\<close> and \<open>U+2014\<close> into \<^verbatim>\<open>--\<close>.
  The function is a reading aid for the theorems below; \<open>process_response\<close> does not use it.
\<close>

definition normal_char :: "nat \<Rightarrow> pystr" where
  "normal_char c =
     (if is_surrogate c then [0x3F]
      else if c = 0x2013 then [0x2D]
      else if c = 0x2014 then [0x2D, 0x2D]
      else [c])"

subsection \<open>Client handles, their constructors and the object store\<close>

text \<open>
  \<^verbatim>\<open>ChatOpenAI(...)\<close> and \<^verbatim>\<open>ChatAnthropic(...)\<close> are constructors of the two client
  libraries. A handle is modelled as the record of the keyword arguments it was built
  from, tagged with its class; \<open>kw_api_key\<close> stands for \<^verbatim>\<open>api_key\<close> (\<^verbatim>\<open>anthropic_api_key\<close>
  for the second class) and \<open>kw_timeout\<close> for \<^verbatim>\<open>request_timeout\<close> (\<^verbatim>\<open>timeout\<close>). The
  configured values are passed on unread, so their type is a parameter \<open>'v\<close>.

  Which arguments a constructor accepts is decided by its library, not by this module: it
  may raise (on a missing or empty key, on a value of the wrong type, ...). A library is
  therefore a parameter of the model: for a constructor call, given as the class and the
  keyword arguments, it tells the exception the call raises, if it raises. The module has
  no \<^verbatim>\<open>try\<close>, so such an exception leaves the method that made the call.
\<close>

record 'v kwargs =
  kw_model_name :: 'v
  kw_temperature :: 'v
  kw_max_tokens :: 'v
  kw_api_key :: "pystr option"
  kw_timeout :: real

datatype 'v client = ChatOpenAI "'v kwargs" | ChatAnthropic "'v kwargs"

fun client_kwargs :: "'v client \<Rightarrow> 'v kwargs" where
  "client_kwargs (ChatOpenAI kw) = kw"
| "client_kwargs (ChatAnthropic kw) = kw"

type_synonym 'v library = "'v client \<Rightarrow> error option"

text \<open>
  Every constructor call that returns makes a new object. The store maps references to
  objects and hands references out in increasing order; two handles are the same object
  when their references are equal. No object is freed in the model: a caller that keeps
  the handle it got from \<^verbatim>\<open>get_model\<close> keeps that object alive.
\<close>

record 'v store =
  objs :: "nat \<rightharpoonup> 'v client"
  next_ref :: nat

definition new_object :: "'v client \<Rightarrow> 'v store \<Rightarrow> nat \<times> 'v store" where
  "new_object c h =
     (next_ref h, h\<lparr>objs := (objs h)(next_ref h \<mapsto> c), next_ref := Suc (next_ref h)\<rparr>)"

text \<open>A constructor call: the exception of the library, or a reference to the new object.\<close>

definition construct :: "'v library \<Rightarrow> 'v client \<Rightarrow> 'v store \<Rightarrow> error + nat \<times> 'v store" where
  "construct lib c h = (case lib c of Some e \<Rightarrow> Inl e | None \<Rightarrow> Inr (new_object c h))"

subsection \<open>\<^verbatim>\<open>LLMModel\<close>\<close>

text \<open>
  The attributes of an instance. \<open>initialize_model\<close> runs inside the constructor before
  \<^verbatim>\<open>self.model\<close> exists, so it is typed on every record that has the first three.
\<close>

record 'v LLMModel_attrs =
  model_type :: pystr
  config :: "pystr \<rightharpoonup> 'v"
  api_key :: "pystr option"

record 'v LLMModel = "'v LLMModel_attrs" +
  model :: nat

text \<open>A subscript \<^verbatim>\<open>d[k]\<close> on a dict raises \<^verbatim>\<open>KeyError(k)\<close> when the key is missing.\<close>

definition getitem :: "(pystr \<rightharpoonup> 'a) \<Rightarrow> pystr \<Rightarrow> error + 'a" where
  "getitem d k = (case d k of None \<Rightarrow> Inl (KeyError k) | Some v \<Rightarrow> Inr v)"

text \<open>Sequencing: the first exception ends the evaluation.\<close>

definition and_then :: "error + 'a \<Rightarrow> ('a \<Rightarrow> error + 'b) \<Rightarrow> error + 'b" where
  "and_then r f = (case r of Inl e \<Rightarrow> Inl e | Inr v \<Rightarrow> f v)"

text \<open>
  \<^verbatim>\<open>
  request_timeout = 600.0
  if self.model_type == "gpt4":
      return ChatOpenAI(model_name=self.config["model_name"],
                        temperature=self.config["temperature"],
                        max_tokens=self.config["max_tokens"],
                        api_key=self.api_key, request_timeout=request_timeout)
  elif self.model_type == "claude":
      return ChatAnthropic(model_name=self.config["model_name"],
                           temperature=self.config["temperature"],
                           max_tokens=self.config["max_tokens"],
                           anthropic_api_key=self.api_key, timeout=request_timeout)
  else:
      raise ValueError(f"Unsupported model type: {self.model_type}")
  \<close>
  The keyword arguments are evaluated in the order written, then the constructor runs.
\<close>

definition constructor_args :: "('v, 'm) LLMModel_attrs_scheme \<Rightarrow> real \<Rightarrow> error + 'v kwargs" where
  "constructor_args self request_timeout =
     and_then (getitem (config self) (str_of ''model_name'')) (\<lambda>mn.
     and_then (getitem (config self) (str_of ''temperature'')) (\<lambda>t.
     and_then (getitem (config self) (str_of ''max_tokens'')) (\<lambda>mt.
       Inr \<lparr>kw_model_name = mn, kw_temperature = t, kw_max_tokens = mt,
            kw_api_key = api_key self, kw_timeout = request_timeout\<rparr>)))"

definition initialize_model ::
    "'v library \<Rightarrow> ('v, 'm) LLMModel_attrs_scheme \<Rightarrow> 'v store \<Rightarrow> error + nat \<times> 'v store" where
  "initialize_model lib self h =
     (let request_timeout = 600 in
      if model_type self = str_of ''gpt4'' then
        and_then (constructor_args self request_timeout)
          (\<lambda>kw. construct lib (ChatOpenAI kw) h)
      else if model_type self = str_of ''claude'' then
        and_then (constructor_args self request_timeout)
          (\<lambda>kw. construct lib (ChatAnthropic kw) h)
      else Inl (ValueError (str_of ''Unsupported model type: '' @ model_type self)))"

text \<open>
  \<^verbatim>\<open>
  def __init__(self, model_type: str = "gpt4", api_key: Optional[str] = None):
      self.model_type = model_type
      self.config = LLM_CONFIG[model_type]
      self.api_key = api_key
      self.model = self._initialize_model()
  \<close>
  \<^verbatim>\<open>LLM_CONFIG\<close> is imported from \<^verbatim>\<open>config/settings.py\<close>; here it is an argument.
\<close>

definition LLMModel_init ::
    "'v library \<Rightarrow> (pystr \<rightharpoonup> (pystr \<rightharpoonup> 'v)) \<Rightarrow> pystr \<Rightarrow> pystr option \<Rightarrow> 'v store
      \<Rightarrow> error + 'v LLMModel \<times> 'v store" where
  "LLMModel_init lib LLM_CONFIG model_type_arg api_key_arg h =
     and_then (getitem LLM_CONFIG model_type_arg) (\<lambda>cfg.
       let self = \<lparr>model_type = model_type_arg, config = cfg, api_key = api_key_arg\<rparr> in
       and_then (initialize_model lib self h) (\<lambda>(r, h').
         Inr (\<lparr>model_type = model_type self, config = config self,
                api_key = api_key self, model = r\<rparr>, h')))"

text \<open>
  A call \<^verbatim>\<open>LLMModel(...)\<close>: an argument the caller leaves out (\<open>None\<close> here) takes the
  default of the signature, \<^verbatim>\<open>"gpt4"\<close> for \<^verbatim>\<open>model_type\<close> and \<^verbatim>\<open>None\<close> for \<^verbatim>\<open>api_key\<close>.
\<close>

definition LLMModel_new ::
    "'v library \<Rightarrow> (pystr \<rightharpoonup> (pystr \<rightharpoonup> 'v)) \<Rightarrow> pystr option \<Rightarrow> pystr option option
      \<Rightarrow> 'v store \<Rightarrow> error + 'v LLMModel \<times> 'v store" where
  "LLMModel_new lib LLM_CONFIG model_type_arg api_key_arg h =
     LLMModel_init lib LLM_CONFIG
       (case model_type_arg of None \<Rightarrow> str_of ''gpt4'' | Some m \<Rightarrow> m)
       (case api_key_arg of None \<Rightarrow> None | Some k \<Rightarrow> k) h"

definition get_model :: "'v LLMModel \<Rightarrow> nat" where
  "get_model self = model self"

text \<open>
  \<^verbatim>\<open>
  def update_api_key(self, api_key: str):
      self.api_key = api_key
      self.model = self._initialize_model()
  \<close>
  The result is the exception raised, if any, with the instance and the store as the call
  leaves them: the first assignment stands when the second statement raises.
\<close>

definition update_api_key ::
    "'v library \<Rightarrow> 'v LLMModel \<Rightarrow> pystr \<Rightarrow> 'v store
      \<Rightarrow> error option \<times> 'v LLMModel \<times> 'v store" where
  "update_api_key lib self api_key_arg h =
     (let self1 = self\<lparr>api_key := Some api_key_arg\<rparr> in
      case initialize_model lib self1 h of
        Inl e \<Rightarrow> (Some e, self1, h)
      | Inr (r, h') \<Rightarrow> (None, self1\<lparr>model := r\<rparr>, h'))"

subsection \<open>Calls on an instance, and the states they reach\<close>

datatype method_call = Get_model | Update_api_key pystr | Process_response pystr

datatype outcome = Raised error | Returned_handle nat | Returned_none | Returned_text pystr

fun call ::
    "'v library \<Rightarrow> method_call \<Rightarrow> 'v LLMModel \<Rightarrow> 'v store
      \<Rightarrow> outcome \<times> 'v LLMModel \<times> 'v store" where
  "call lib Get_model self h = (Returned_handle (get_model self), self, h)"
| "call lib (Update_api_key k) self h =
     (case update_api_key lib self k h of
        (Some e, self', h') \<Rightarrow> (Raised e, self', h')
      | (None, self', h') \<Rightarrow> (Returned_none, self', h'))"
| "call lib (Process_response text) self h =
     (case process_response self text of
        Inl e \<Rightarrow> (Raised e, self, h)
      | Inr t \<Rightarrow> (Returned_text t, self, h))"

text \<open>
  The states of an instance and the store that a program reaches through the class: a
  construction that returns, then any calls of the three methods, whether they return or
  raise, with other objects created in between.
\<close>

inductive reachable ::
    "'v library \<Rightarrow> (pystr \<rightharpoonup> (pystr \<rightharpoonup> 'v)) \<Rightarrow> 'v LLMModel \<Rightarrow> 'v store \<Rightarrow> bool"
  for lib :: "'v library" and LLM_CONFIG :: "pystr \<rightharpoonup> (pystr \<rightharpoonup> 'v)" where
  constructed:
    "LLMModel_init lib LLM_CONFIG mt key h0 = Inr (self, h)
      \<Longrightarrow> reachable lib LLM_CONFIG self h"
| called:
    "reachable lib LLM_CONFIG self h \<Longrightarrow> call lib m self h = (out, self', h')
      \<Longrightarrow> reachable lib LLM_CONFIG self' h'"
| allocated:
    "reachable lib LLM_CONFIG self h \<Longrightarrow> new_object c h = (r, h')
      \<Longrightarrow> reachable lib LLM_CONFIG self h'"

text \<open>
  The reachable states in which the last assignment to \<^verbatim>\<open>self.api_key\<close> was followed by
  a constructor call that returned: the state after a construction, the state after a key
  update that returned (from any reachable state), and what other allocations make of
  them. \<open>get_model\<close> and \<open>process_response\<close> leave the state as it is.
\<close>

inductive settled ::
    "'v library \<Rightarrow> (pystr \<rightharpoonup> (pystr \<rightharpoonup> 'v)) \<Rightarrow> 'v LLMModel \<Rightarrow> 'v store \<Rightarrow> bool"
  for lib :: "'v library" and LLM_CONFIG :: "pystr \<rightharpoonup> (pystr \<rightharpoonup> 'v)" where
  built:
    "LLMModel_init lib LLM_CONFIG mt key h0 = Inr (self, h)
      \<Longrightarrow> settled lib LLM_CONFIG self h"
| rebuilt:
    "reachable lib LLM_CONFIG self h \<Longrightarrow> update_api_key lib self k h = (None, self', h')
      \<Longrightarrow> settled lib LLM_CONFIG self' h'"
| elsewhere:
    "settled lib LLM_CONFIG self h \<Longrightarrow> new_object c h = (r, h')
      \<Longrightarrow> settled lib LLM_CONFIG self h'"

text \<open>
  Modelled from the spec: the contents of \<^verbatim>\<open>LLM_CONFIG\<close>, which \<^verbatim>\<open>config/settings.py\<close>
  defines. The keys are \<^verbatim>\<open>"gpt4"\<close> and \<^verbatim>\<open>"claude"\<close>, and every entry has a model name, a
  temperature and a token budget.
\<close>

definition spec_config :: "(pystr \<rightharpoonup> (pystr \<rightharpoonup> 'v)) \<Rightarrow> bool" where
  "spec_config LLM_CONFIG =
     (dom LLM_CONFIG = {str_of ''gpt4'', str_of ''claude''} \<and>
      (\<forall>cfg \<in> ran LLM_CONFIG.
         {str_of ''model_name'', str_of ''temperature'', str_of ''max_tokens''} \<subseteq> dom cfg))"

subsection \<open>Auxiliary definitions for the proofs\<close>

text \<open>The class of the handle that \<open>initialize_model\<close> builds for a supported provider.\<close>

definition client_class :: "pystr \<Rightarrow> 'v kwargs \<Rightarrow> 'v client" where
  "client_class mt = (if mt = str_of ''gpt4'' then ChatOpenAI else ChatAnthropic)"

text \<open>
  Two invariants of the instance. In every reachable state the provider is one of the two
  supported ones and the handle is an object of the store, built from the configuration
  of the instance with the key \<open>key\<close>. The handle is current when that key is the stored
  one.
\<close>

definition handle_built :: "'v LLMModel \<Rightarrow> 'v store \<Rightarrow> pystr option \<Rightarrow> bool" where
  "handle_built self h key =
     ((model_type self = str_of ''gpt4'' \<or> model_type self = str_of ''claude'') \<and>
      model self < next_ref h \<and>
      (case constructor_args self 600 of
         Inl e \<Rightarrow> False
       | Inr kw \<Rightarrow>
           objs h (model self) = Some (client_class (model_type self) (kw\<lparr>kw_api_key := key\<rparr>))))"

definition handle_current :: "'v LLMModel \<Rightarrow> 'v store \<Rightarrow> bool" where
  "handle_current self h = handle_built self h (api_key self)"

text \<open>
  A configuration of the described shape, an empty store and two libraries, to run the
  definitions on: one library accepts every call, the other refuses an empty key. The
  values are examples; nothing below depends on them but the evaluations at these inputs.
\<close>

datatype pyval = PyStr pystr | PyFloat real | PyInt int

definition gpt4_entry :: "pystr \<rightharpoonup> pyval" where
  "gpt4_entry =
     [str_of ''model_name'' \<mapsto> PyStr (str_of ''gpt-4''),
      str_of ''temperature'' \<mapsto> PyFloat 0,
      str_of ''max_tokens'' \<mapsto> PyInt 4096]"

definition claude_entry :: "pystr \<rightharpoonup> pyval" where
  "claude_entry =
     [str_of ''model_name'' \<mapsto> PyStr (str_of ''claude-3''),
      str_of ''temperature'' \<mapsto> PyFloat 0,
      str_of ''max_tokens'' \<mapsto> PyInt 2048]"

definition sample_config :: "pystr \<rightharpoonup> (pystr \<rightharpoonup> pyval)" where
  "sample_config = [str_of ''gpt4'' \<mapsto> gpt4_entry, str_of ''claude'' \<mapsto> claude_entry]"

definition empty_store :: "'v store" where
  "empty_store = \<lparr>objs = Map.empty, next_ref = 0\<rparr>"

definition accepting :: "'v library" where
  "accepting c = None"

definition refusing_empty_key :: "'v library" where
  "refusing_empty_key c =
     (if kw_api_key (client_kwargs c) = Some [] then Some (ClientError (str_of ''empty key''))
      else None)"

text \<open>
  The instance and the store after \<^verbatim>\<open>LLMModel("gpt4", key)\<close> on the empty store, with the
  first handle at reference 0.
\<close>

definition gpt4_handle :: "pystr option \<Rightarrow> pyval client" where
  "gpt4_handle key =
     ChatOpenAI \<lparr>kw_model_name = PyStr (str_of ''gpt-4''), kw_temperature = PyFloat 0,
                 kw_max_tokens = PyInt 4096, kw_api_key = key, kw_timeout = 600\<rparr>"

definition gpt4_instance :: "pystr option \<Rightarrow> pyval LLMModel" where
  "gpt4_instance key =
     \<lparr>model_type = str_of ''gpt4'', config = gpt4_entry, api_key = key, model = 0\<rparr>"

definition gpt4_store :: "pystr option \<Rightarrow> pyval store" where
  "gpt4_store key = \<lparr>objs = [0 \<mapsto> gpt4_handle key], next_ref = 1\<rparr>"

section \<open>The codec round trip\<close>

lemma decode1_ascii: "c < 0x80 \<Longrightarrow> utf8_decode1 (c # bs) = Some (c, bs)"
  by (simp add: utf8_decode1_def)

lemma decode1_two:
  assumes "0x80 \<le> c" "c < 0x800"
  shows "utf8_decode1 ((0xC0 + c div 0x40) # (0x80 + c mod 0x40) # bs) = Some (c, bs)"
proof -
  have a: "2 \<le> c div 64" "c div 64 < 32" using assms by arith+
  have b: "c mod 64 < 64" by simp
  have r: "c div 64 * 64 + c mod 64 = c" by simp
  show ?thesis unfolding utf8_decode1_def is_cont_def using a b r by simp
qed

lemma split3:
  fixes c :: nat
  shows "c = c div 4096 * 4096 + c div 64 mod 64 * 64 + c mod 64"
proof -
  have "c div 4096 = c div 64 div 64" by (simp add: div_mult2_eq)
  then have "c div 64 = c div 4096 * 64 + c div 64 mod 64" by simp
  moreover have "c = c div 64 * 64 + c mod 64" by simp
  ultimately show ?thesis by linarith
qed

lemma decode1_three_raw:
  assumes "h < 16" "m < 64" "l < 64" "h = 0 \<Longrightarrow> 32 \<le> m" "h = 13 \<Longrightarrow> m < 32"
  shows "utf8_decode1 ((0xE0 + h) # (0x80 + m) # (0x80 + l) # bs) = Some (h * 4096 + m * 64 + l, bs)"
proof -
  have 1: "\<not> 0xE0 + h < 0x80" "\<not> 0xE0 + h < 0xC2" "\<not> 0xE0 + h < 0xE0" "0xE0 + h < 0xF0"
    using assms by simp_all
  have 2: "(0xE0 + h = 0xE0) = (h = 0)" "(0xE0 + h = 0xED) = (h = 13)" by auto
  have 3: "(if h = 0 then 0xA0 else 0x80) \<le> 0x80 + m" using assms(4) by auto
  have 4: "0x80 + m \<le> (if h = 13 then 0x9F else 0xBF)" using assms(5,2) by auto
  have 5: "is_cont (0x80 + l)" using assms(3) by (simp add: is_cont_def)
  show ?thesis
    unfolding utf8_decode1_def by (simp only: list.case 1 2 3 4 5 if_True if_False simp_thms) simp
qed

lemma decode1_three:
  assumes "0x800 \<le> c" "c < 0x10000" "\<not> is_surrogate c"
  shows "utf8_decode1 ((0xE0 + c div 0x1000) # (0x80 + c div 0x40 mod 0x40) # (0x80 + c mod 0x40) # bs)
         = Some (c, bs)"
proof -
  define h where "h = c div 4096"
  define m where "m = c div 64 mod 64"
  define l where "l = c mod 64"
  have c: "c = h * 4096 + m * 64 + l"
    unfolding h_def m_def l_def by (rule split3)
  have ml: "m < 64" "l < 64" by (simp_all add: m_def l_def)
  have h: "h < 16" unfolding h_def using assms(2) by (simp add: less_mult_imp_div_less)
  have lo: "h = 0 \<Longrightarrow> 32 \<le> m" using assms(1) c ml by linarith
  have "c < 0xD800 \<or> 0xDFFF < c" using assms(3) by (auto simp: is_surrogate_def)
  then have hi: "h = 13 \<Longrightarrow> m < 32" using c ml by linarith
  have "utf8_decode1 ((0xE0 + h) # (0x80 + m) # (0x80 + l) # bs) = Some (h * 4096 + m * 64 + l, bs)"
    using h ml lo hi by (rule decode1_three_raw)
  then have "utf8_decode1 ((0xE0 + h) # (0x80 + m) # (0x80 + l) # bs) = Some (c, bs)"
    by (simp only: c[symmetric])
  then show ?thesis unfolding h_def m_def l_def .
qed

lemma split4:
  fixes c :: nat
  shows "c = c div 262144 * 262144 + c div 4096 mod 64 * 4096 + c div 64 mod 64 * 64 + c mod 64"
proof -
  have "c div 262144 = c div 4096 div 64" by (simp add: div_mult2_eq)
  then have "c div 4096 = c div 262144 * 64 + c div 4096 mod 64" by simp
  moreover have "c = c div 4096 * 4096 + c div 64 mod 64 * 64 + c mod 64" by (rule split3)
  ultimately show ?thesis by linarith
qed

lemma decode1_four_raw:
  assumes "h < 5" "m < 64" "n < 64" "l < 64" "h = 0 \<Longrightarrow> 16 \<le> m" "h = 4 \<Longrightarrow> m < 16"
  shows "utf8_decode1 ((0xF0 + h) # (0x80 + m) # (0x80 + n) # (0x80 + l) # bs)
         = Some (h * 262144 + m * 4096 + n * 64 + l, bs)"
proof -
  have 1: "\<not> 0xF0 + h < 0x80" "\<not> 0xF0 + h < 0xC2" "\<not> 0xF0 + h < 0xE0" "\<not> 0xF0 + h < 0xF0"
      "0xF0 + h < 0xF5"
    using assms by simp_all
  have 2: "(0xF0 + h = 0xF0) = (h = 0)" "(0xF0 + h = 0xF4) = (h = 4)" by auto
  have 3: "(if h = 0 then 0x90 else 0x80) \<le> 0x80 + m" using assms(5) by auto
  have 4: "0x80 + m \<le> (if h = 4 then 0x8F else 0xBF)" using assms(6,2) by auto
  have 5: "is_cont (0x80 + n)" "is_cont (0x80 + l)" using assms(3,4) by (simp_all add: is_cont_def)
  show ?thesis
    unfolding utf8_decode1_def by (simp only: list.case 1 2 3 4 5 if_True if_False simp_thms) simp
qed

lemma decode1_four:
  assumes "0x10000 \<le> c" "c < 0x110000"
  shows "utf8_decode1 ((0xF0 + c div 0x40000) # (0x80 + c div 0x1000 mod 0x40)
            # (0x80 + c div 0x40 mod 0x40) # (0x80 + c mod 0x40) # bs) = Some (c, bs)"
proof -
  define h where "h = c div 262144"
  define m where "m = c div 4096 mod 64"
  define n where "n = c div 64 mod 64"
  define l where "l = c mod 64"
  have c: "c = h * 262144 + m * 4096 + n * 64 + l"
    unfolding h_def m_def n_def l_def by (rule split4)
  have ml: "m < 64" "n < 64" "l < 64" by (simp_all add: m_def n_def l_def)
  have h: "h < 5" unfolding h_def using assms(2) by (simp add: less_mult_imp_div_less)
  have lo: "h = 0 \<Longrightarrow> 16 \<le> m" using assms(1) c ml by linarith
  have hi: "h = 4 \<Longrightarrow> m < 16" using assms(2) c ml by linarith
  have "utf8_decode1 ((0xF0 + h) # (0x80 + m) # (0x80 + n) # (0x80 + l) # bs)
        = Some (h * 262144 + m * 4096 + n * 64 + l, bs)"
    using h ml lo hi by (rule decode1_four_raw)
  then have "utf8_decode1 ((0xF0 + h) # (0x80 + m) # (0x80 + n) # (0x80 + l) # bs) = Some (c, bs)"
    by (simp only: c[symmetric])
  then show ?thesis unfolding h_def m_def n_def l_def .
qed

lemma decode1_char:
  assumes "\<not> is_surrogate c" "c < 0x110000"
  shows "utf8_decode1 (utf8_char c @ bs) = Some (c, bs)"
proof -
  consider "c < 0x80" | "0x80 \<le> c" "c < 0x800" | "0x800 \<le> c" "c < 0x10000" | "0x10000 \<le> c"
    by linarith
  then show ?thesis
  proof cases
    case 1 then show ?thesis by (simp add: utf8_char_def decode1_ascii)
  next
    case 2 then show ?thesis using decode1_two[OF 2] by (simp add: utf8_char_def)
  next
    case 3 then show ?thesis using decode1_three[OF 3 assms(1)] by (simp add: utf8_char_def)
  next
    case 4 then show ?thesis using decode1_four[OF 4 assms(2)] by (simp add: utf8_char_def)
  qed
qed

lemma bytes_decode_Nil: "bytes_decode [] = Inr []"
  by (simp add: bytes_decode.simps)

lemma bytes_decode_step:
  assumes "utf8_decode1 bs = Some (c, r)"
  shows "bytes_decode bs = (case bytes_decode r of Inl e \<Rightarrow> Inl e | Inr cs \<Rightarrow> Inr (c # cs))"
proof -
  have "bs \<noteq> []" using assms by (auto simp: utf8_decode1_def)
  then show ?thesis using assms by (subst bytes_decode.simps) simp
qed

lemma encode_replace_decode:
  "valid_str s \<Longrightarrow>
     \<exists>bs. str_encode Replace s = Inr bs
        \<and> bytes_decode bs = Inr (map (\<lambda>c. if is_surrogate c then 0x3F else c) s)"
proof (induction s)
  case Nil
  then show ?case by (simp add: bytes_decode_Nil)
next
  case (Cons c s)
  then obtain bs where bs: "str_encode Replace s = Inr bs"
      "bytes_decode bs = Inr (map (\<lambda>c. if is_surrogate c then 0x3F else c) s)"
    by (auto simp: valid_str_def)
  have c: "c < 0x110000" using Cons.prems by (simp add: valid_str_def)
  show ?case
  proof (cases "is_surrogate c")
    case True
    have "utf8_decode1 (0x3F # bs) = Some (0x3F, bs)" by (rule decode1_ascii) simp
    then show ?thesis using True bs by (simp add: bytes_decode_step)
  next
    case False
    have "utf8_decode1 (utf8_char c @ bs) = Some (c, bs)" using False c by (rule decode1_char)
    then show ?thesis using False bs by (simp add: bytes_decode_step)
  qed
qed

lemma encode_strict_decode:
  "valid_str s \<Longrightarrow> \<not> list_ex is_surrogate s \<Longrightarrow>
     \<exists>bs. str_encode Strict s = Inr bs \<and> bytes_decode bs = Inr s"
proof (induction s)
  case Nil
  then show ?case by (simp add: bytes_decode_Nil)
next
  case (Cons c s)
  then obtain bs where bs: "str_encode Strict s = Inr bs" "bytes_decode bs = Inr s"
    by (auto simp: valid_str_def)
  have c: "c < 0x110000" "\<not> is_surrogate c" using Cons.prems by (simp_all add: valid_str_def)
  have "utf8_decode1 (utf8_char c @ bs) = Some (c, bs)" using c(2,1) by (rule decode1_char)
  then show ?case using c bs by (simp add: bytes_decode_step)
qed

lemma str_replace_char:
  "str_replace [a] new s = concat (map (\<lambda>c. if c = a then new else [c]) s)"
proof (induction s)
  case Nil
  show ?case by (subst str_replace.simps) simp
next
  case (Cons c s)
  show ?case by (subst str_replace.simps) (simp add: Cons.IH)
qed

lemma concat_map_concat_map:
  "concat (map f (concat (map g xs))) = concat (map (\<lambda>x. concat (map f (g x))) xs)"
  by (induction xs) simp_all

lemma process_response_chars:
  assumes "valid_str s"
  shows "process_response self s = Inr (concat (map normal_char s))"
proof -
  obtain bs where bs: "str_encode Replace s = Inr bs"
      "bytes_decode bs = Inr (map (\<lambda>c. if is_surrogate c then 0x3F else c) s)"
    using encode_replace_decode[OF assms] by blast
  have "concat (map (\<lambda>c. if c = 0x2014 then str_of ''--'' else [c])
          (concat (map (\<lambda>c. if c = 0x2013 then str_of ''-'' else [c])
             (map (\<lambda>c. if is_surrogate c then 0x3F else c) s))))
        = concat (map normal_char s)"
    unfolding concat_map_concat_map map_map
    by (rule arg_cong[where f = concat], rule map_cong)
       (auto simp: normal_char_def str_of_def is_surrogate_def)
  then show ?thesis
    by (simp add: process_response_def bs str_replace_char)
qed

section \<open>Properties of \<^verbatim>\<open>process_response\<close>\<close>

lemma normal_char_fixed: "x \<in> set (normal_char c) \<Longrightarrow> normal_char x = [x]"
  by (auto simp: normal_char_def is_surrogate_def split: if_splits)

lemma concat_map_singletons: "(\<And>x. x \<in> set xs \<Longrightarrow> f x = [x]) \<Longrightarrow> concat (map f xs) = xs"
  by (induction xs) simp_all

lemma normal_char_idem:
  "concat (map normal_char (concat (map normal_char s))) = concat (map normal_char s)"
  by (rule concat_map_singletons) (auto dest: normal_char_fixed)

lemma normal_char_valid: "c < 0x110000 \<Longrightarrow> list_all (\<lambda>x. x < 0x110000) (normal_char c)"
  by (simp add: normal_char_def)

lemma valid_str_normal: "valid_str s \<Longrightarrow> valid_str (concat (map normal_char s))"
  unfolding valid_str_def by (induction s) (simp_all add: normal_char_valid)

lemma normal_char_no_dash: "x \<in> set (normal_char c) \<Longrightarrow> x \<noteq> 0x2013 \<and> x \<noteq> 0x2014 \<and> \<not> is_surrogate x"
  by (auto simp: normal_char_def is_surrogate_def split: if_splits)

text \<open>
  Claim C5. \<open>process_response\<close> is idempotent: on every Python string it returns, and
  applied to its own result it returns that result again.
\<close>

theorem process_response_idempotent:
  assumes "valid_str s"
  shows "\<exists>t. process_response self s = Inr t \<and> process_response self t = Inr t"
proof -
  let ?t = "concat (map normal_char s)"
  have "process_response self s = Inr ?t" using assms by (rule process_response_chars)
  moreover have "process_response self ?t = Inr ?t"
    using valid_str_normal[OF assms] by (simp add: process_response_chars normal_char_idem)
  ultimately show ?thesis by blast
qed

theorem process_response_idempotent_witness:
  "\<exists>t. process_response () [0x2014, 0xD800, 0x41] = Inr t \<and> process_response () t = Inr t"
  by (rule process_response_idempotent) (simp add: valid_str_def)

text \<open>
  Claim C6. On every Python string \<open>process_response\<close> returns a text without \<open>U+2013\<close>
  and without \<open>U+2014\<close>: each \<open>U+2013\<close> of the input has become \<^verbatim>\<open>-\<close>, each \<open>U+2014\<close>
  has become \<^verbatim>\<open>--\<close> (a surrogate has become \<^verbatim>\<open>?\<close>, every other character is kept), and
  the result encodes to UTF-8 under the strict handler and decodes back to itself.
\<close>

theorem process_response_dash_free:
  assumes "valid_str s"
  shows "\<exists>t. process_response self s = Inr t
           \<and> 0x2013 \<notin> set t \<and> 0x2014 \<notin> set t
           \<and> t = concat (map (\<lambda>c. if c = 0x2013 then str_of ''-''
                                   else if c = 0x2014 then str_of ''--''
                                   else if is_surrogate c then str_of ''?''
                                   else [c]) s)
           \<and> (\<exists>bs. str_encode Strict t = Inr bs \<and> bytes_decode bs = Inr t)"
proof -
  let ?t = "concat (map normal_char s)"
  have 1: "process_response self s = Inr ?t" using assms by (rule process_response_chars)
  have 2: "0x2013 \<notin> set ?t" "0x2014 \<notin> set ?t" "\<not> list_ex is_surrogate ?t"
    by (auto simp: list_ex_iff dest: normal_char_no_dash)
  have "normal_char = (\<lambda>c. if c = 0x2013 then str_of ''-''
                                   else if c = 0x2014 then str_of ''--''
                                   else if is_surrogate c then str_of ''?''
                                   else [c])"
    by (rule ext) (simp add: normal_char_def str_of_def is_surrogate_def)
  then have 3: "?t = concat (map (\<lambda>c. if c = 0x2013 then str_of ''-''
                                   else if c = 0x2014 then str_of ''--''
                                   else if is_surrogate c then str_of ''?''
                                   else [c]) s)"
    by simp
  have 4: "\<exists>bs. str_encode Strict ?t = Inr bs \<and> bytes_decode bs = Inr ?t"
    using valid_str_normal[OF assms] 2(3) by (rule encode_strict_decode)
  show ?thesis using 1 2(1,2) 3 4 by blast
qed

theorem process_response_dash_free_witness:
  "\<exists>t. process_response () [0x2013, 0x62, 0x2014] = Inr t
       \<and> 0x2013 \<notin> set t \<and> 0x2014 \<notin> set t
       \<and> t = [0x2D, 0x62, 0x2D, 0x2D]
       \<and> (\<exists>bs. str_encode Strict t = Inr bs \<and> bytes_decode bs = Inr t)"
  using process_response_dash_free [of "[0x2013, 0x62, 0x2014]" "()"]
  by (simp add: valid_str_def str_of_def is_surrogate_def)

text \<open>
  Claim C7. \<open>process_response\<close> never raises: it returns on every Python string, and on
  a string with a lone surrogate \<open>c\<close> between \<open>xs\<close> and \<open>ys\<close> it returns the results for
  \<open>xs\<close> and \<open>ys\<close> with the replacement marker \<^verbatim>\<open>?\<close> of the encoder in the place of \<open>c\<close>.
\<close>

theorem process_response_never_raises:
  assumes "valid_str xs" "valid_str ys" "is_surrogate c"
  shows "\<exists>tx ty. process_response self xs = Inr tx \<and> process_response self ys = Inr ty
           \<and> process_response self (xs @ c # ys) = Inr (tx @ str_of ''?'' @ ty)"
proof -
  have "c < 0x110000" using assms(3) by (simp add: is_surrogate_def)
  then have "valid_str (xs @ c # ys)" using assms(1,2) by (simp add: valid_str_def)
  then have "process_response self (xs @ c # ys)
             = Inr (concat (map normal_char xs) @ str_of ''?'' @ concat (map normal_char ys))"
    using assms(3) by (simp add: process_response_chars normal_char_def str_of_def)
  then show ?thesis using assms(1,2) by (simp add: process_response_chars)
qed

theorem process_response_never_raises_witness:
  "\<exists>tx ty. process_response () [0x61] = Inr tx \<and> process_response () [0x2013] = Inr ty
       \<and> process_response () ([0x61] @ 0xDC80 # [0x2013]) = Inr (tx @ str_of ''?'' @ ty)"
  by (rule process_response_never_raises) (simp_all add: valid_str_def is_surrogate_def)

text \<open>
  Claim C8. The text \<^verbatim>\<open>"caf\u00e9 \u2013 2024 \u2014 test"\<close> (with \<open>U+00E9\<close>, an EN DASH and
  an EM DASH) is mapped to \<^verbatim>\<open>"caf\u00e9 - 2024 -- test"\<close>.
\<close>

theorem process_response_example:
  "process_response self
     (str_of ''caf'' @ [0xE9] @ str_of '' '' @ [0x2013] @ str_of '' 2024 '' @ [0x2014] @ str_of '' test'')
   = Inr (str_of ''caf'' @ [0xE9] @ str_of '' - 2024 -- test'')"
  by (simp add: process_response_chars valid_str_def normal_char_def is_surrogate_def str_of_def)

text \<open>
  Claim C9. The result of \<open>process_response\<close> depends on the text alone: two calls with
  the same text give the same outcome, whatever the instances and the stores they run on.
  The call leaves the instance (provider, configuration, key, handle) and the object store
  as they were.
\<close>

theorem process_response_pure:
  "process_response self1 s = process_response self2 s
   \<and> fst (call lib (Process_response s) self h) = fst (call lib' (Process_response s) self' h')
   \<and> snd (call lib (Process_response s) self h) = (self, h)"
  by (simp add: process_response_def split: sum.splits)

section \<open>The instance and its handle\<close>

lemma spec_config_sample: "spec_config sample_config"
  by (auto simp: spec_config_def sample_config_def gpt4_entry_def claude_entry_def
        str_of_def ran_def split: if_splits)

lemma constructor_args_Inr:
  "constructor_args self tmo = Inr kw \<longleftrightarrow>
     (\<exists>mn t k. config self (str_of ''model_name'') = Some mn
        \<and> config self (str_of ''temperature'') = Some t
        \<and> config self (str_of ''max_tokens'') = Some k
        \<and> kw = \<lparr>kw_model_name = mn, kw_temperature = t, kw_max_tokens = k,
                  kw_api_key = api_key self, kw_timeout = tmo\<rparr>)"
  by (auto simp: constructor_args_def and_then_def getitem_def split: option.splits)

lemma constructor_args_api_key:
  "constructor_args (self\<lparr>api_key := k\<rparr>) tmo =
     (case constructor_args self tmo of Inl e \<Rightarrow> Inl e | Inr kw \<Rightarrow> Inr (kw\<lparr>kw_api_key := k\<rparr>))"
  by (simp add: constructor_args_def and_then_def getitem_def split: option.splits)

lemma constructor_args_model:
  "constructor_args (self\<lparr>model := r\<rparr>) tmo = constructor_args self tmo"
  by (simp add: constructor_args_def)

lemma initialize_model_supported:
  assumes "model_type self = str_of ''gpt4'' \<or> model_type self = str_of ''claude''"
  shows "initialize_model lib self h =
           (case constructor_args self 600 of
              Inl e \<Rightarrow> Inl e
            | Inr kw \<Rightarrow> construct lib (client_class (model_type self) kw) h)"
  using assms
  by (auto simp: initialize_model_def and_then_def client_class_def str_of_def split: sum.splits)

lemma initialize_model_unsupported:
  assumes "model_type self \<noteq> str_of ''gpt4''" "model_type self \<noteq> str_of ''claude''"
  shows "initialize_model lib self h
           = Inl (ValueError (str_of ''Unsupported model type: '' @ model_type self))"
  using assms by (simp add: initialize_model_def)

lemma construct_Inr:
  "construct lib c h = Inr (r, h') \<longleftrightarrow> lib c = None \<and> new_object c h = (r, h')"
  by (simp add: construct_def split: option.splits)

lemma LLMModel_init_Inr:
  assumes "LLMModel_init lib LLM_CONFIG mt key h0 = Inr (self, h)"
  shows "handle_current self h \<and> model_type self = mt \<and> api_key self = key
           \<and> LLM_CONFIG mt = Some (config self) \<and> model self = next_ref h0"
proof -
  obtain cfg where cfg: "LLM_CONFIG mt = Some cfg"
    using assms by (auto simp: LLMModel_init_def and_then_def getitem_def split: option.splits)
  let ?pre = "\<lparr>model_type = mt, config = cfg, api_key = key\<rparr>"
  from assms cfg obtain r where r: "initialize_model lib ?pre h0 = Inr (r, h)"
      and self: "self = \<lparr>model_type = mt, config = cfg, api_key = key, model = r\<rparr>"
    by (auto simp: LLMModel_init_def and_then_def getitem_def Let_def split: sum.splits)
  have mt: "mt = str_of ''gpt4'' \<or> mt = str_of ''claude''"
    using r initialize_model_unsupported[of ?pre lib h0] by auto
  then obtain kw where kw: "constructor_args ?pre 600 = Inr kw"
      "construct lib (client_class mt kw) h0 = Inr (r, h)"
    using r initialize_model_supported[of ?pre lib h0] by (auto split: sum.splits)
  have new: "new_object (client_class mt kw) h0 = (r, h)"
    using kw(2) by (simp add: construct_Inr)
  have "kw_api_key kw = key" using kw(1) by (auto simp: constructor_args_Inr)
  then have same: "kw\<lparr>kw_api_key := key\<rparr> = kw" by simp
  have args: "constructor_args self 600 = Inr kw"
    using kw(1) by (simp add: self constructor_args_def)
  show ?thesis
    using new mt cfg args same
    by (auto simp: handle_current_def handle_built_def self new_object_def)
qed

text \<open>A key update on an instance whose handle was built from its configuration.\<close>

lemma update_api_key_built:
  assumes "handle_built self h key"
  shows "\<exists>kw. objs h (model self) = Some (client_class (model_type self) kw)
           \<and> constructor_args self 600 = Inr (kw\<lparr>kw_api_key := api_key self\<rparr>)
           \<and> update_api_key lib self k h =
               (case lib (client_class (model_type self) (kw\<lparr>kw_api_key := Some k\<rparr>)) of
                  Some e \<Rightarrow> (Some e, self\<lparr>api_key := Some k\<rparr>, h)
                | None \<Rightarrow>
                    (None, self\<lparr>api_key := Some k, model := next_ref h\<rparr>,
                     h\<lparr>objs := (objs h)(next_ref h \<mapsto>
                            client_class (model_type self) (kw\<lparr>kw_api_key := Some k\<rparr>)),
                       next_ref := Suc (next_ref h)\<rparr>))"
proof -
  from assms obtain kw0 where kw0: "constructor_args self 600 = Inr kw0"
      "objs h (model self) = Some (client_class (model_type self) (kw0\<lparr>kw_api_key := key\<rparr>))"
    by (auto simp: handle_built_def split: sum.splits)
  have k0: "kw_api_key kw0 = api_key self" using kw0(1) by (auto simp: constructor_args_Inr)
  let ?kw = "kw0\<lparr>kw_api_key := key\<rparr>"
  have a: "?kw\<lparr>kw_api_key := api_key self\<rparr> = kw0" using k0 by simp
  have b: "?kw\<lparr>kw_api_key := Some k\<rparr> = kw0\<lparr>kw_api_key := Some k\<rparr>" by simp
  have mt: "model_type self = str_of ''gpt4'' \<or> model_type self = str_of ''claude''"
    using assms by (simp add: handle_built_def)
  have "initialize_model lib (self\<lparr>api_key := Some k\<rparr>) h =
          construct lib (client_class (model_type self) (kw0\<lparr>kw_api_key := Some k\<rparr>)) h"
    using mt kw0(1) by (simp add: initialize_model_supported constructor_args_api_key)
  then have "update_api_key lib self k h =
               (case lib (client_class (model_type self) (kw0\<lparr>kw_api_key := Some k\<rparr>)) of
                  Some e \<Rightarrow> (Some e, self\<lparr>api_key := Some k\<rparr>, h)
                | None \<Rightarrow>
                    (None, self\<lparr>api_key := Some k, model := next_ref h\<rparr>,
                     h\<lparr>objs := (objs h)(next_ref h \<mapsto>
                            client_class (model_type self) (kw0\<lparr>kw_api_key := Some k\<rparr>)),
                       next_ref := Suc (next_ref h)\<rparr>))"
    by (simp add: update_api_key_def construct_def new_object_def split: option.splits)
  then have 3: "update_api_key lib self k h =
               (case lib (client_class (model_type self) (?kw\<lparr>kw_api_key := Some k\<rparr>)) of
                  Some e \<Rightarrow> (Some e, self\<lparr>api_key := Some k\<rparr>, h)
                | None \<Rightarrow>
                    (None, self\<lparr>api_key := Some k, model := next_ref h\<rparr>,
                     h\<lparr>objs := (objs h)(next_ref h \<mapsto>
                            client_class (model_type self) (?kw\<lparr>kw_api_key := Some k\<rparr>)),
                       next_ref := Suc (next_ref h)\<rparr>))"
    by (simp only: b)
  have 2: "constructor_args self 600 = Inr (?kw\<lparr>kw_api_key := api_key self\<rparr>)"
    by (simp only: a kw0(1))
  show ?thesis
    using kw0(2) 2 3 by (intro exI[of _ ?kw] conjI)
qed

lemma update_api_key_preserves:
  assumes "handle_built self h key" "update_api_key lib self k h = (e, self', h')"
  shows "handle_built self' h' (if e = None then Some k else key)"
proof -
  from update_api_key_built[OF assms(1), of lib k]
  obtain kw where old: "objs h (model self) = Some (client_class (model_type self) kw)"
    and args: "constructor_args self 600 = Inr (kw\<lparr>kw_api_key := api_key self\<rparr>)"
    and upd: "update_api_key lib self k h =
               (case lib (client_class (model_type self) (kw\<lparr>kw_api_key := Some k\<rparr>)) of
                  Some e \<Rightarrow> (Some e, self\<lparr>api_key := Some k\<rparr>, h)
                | None \<Rightarrow>
                    (None, self\<lparr>api_key := Some k, model := next_ref h\<rparr>,
                     h\<lparr>objs := (objs h)(next_ref h \<mapsto>
                            client_class (model_type self) (kw\<lparr>kw_api_key := Some k\<rparr>)),
                       next_ref := Suc (next_ref h)\<rparr>))"
    by blast
  have mt: "model_type self = str_of ''gpt4'' \<or> model_type self = str_of ''claude''"
      and lt: "model self < next_ref h"
    using assms(1) by (simp_all add: handle_built_def)
  have key: "objs h (model self) =
      Some (client_class (model_type self) (kw\<lparr>kw_api_key := api_key self, kw_api_key := key\<rparr>))"
    using assms(1) args by (simp add: handle_built_def)
  show ?thesis
  proof (cases "lib (client_class (model_type self) (kw\<lparr>kw_api_key := Some k\<rparr>))")
    case None
    then have r: "e = None" "self' = self\<lparr>api_key := Some k, model := next_ref h\<rparr>"
        "h' = h\<lparr>objs := (objs h)(next_ref h \<mapsto>
                     client_class (model_type self) (kw\<lparr>kw_api_key := Some k\<rparr>)),
                next_ref := Suc (next_ref h)\<rparr>"
      using upd assms(2) by simp_all
    show ?thesis
      using mt args
      by (simp add: r handle_built_def constructor_args_model constructor_args_api_key)
  next
    case (Some x)
    then have r: "e = Some x" "self' = self\<lparr>api_key := Some k\<rparr>" "h' = h"
      using upd assms(2) by simp_all
    show ?thesis
      using mt lt args key
      by (simp add: r handle_built_def constructor_args_api_key)
  qed
qed

lemma handle_built_allocated:
  assumes "handle_built self h key" "new_object c h = (r, h')"
  shows "handle_built self h' key"
  using assms by (auto simp: handle_built_def new_object_def split: sum.splits)

lemma reachable_handle_built:
  "reachable lib LLM_CONFIG self h \<Longrightarrow> \<exists>key. handle_built self h key"
proof (induction rule: reachable.induct)
  case (constructed mt key h0 self h)
  then have "handle_current self h" by (simp add: LLMModel_init_Inr)
  then show ?case unfolding handle_current_def by blast
next
  case (called self h m out self' h')
  then obtain key where key: "handle_built self h key" by blast
  show ?case
  proof (cases m)
    case Get_model
    then show ?thesis using called.hyps(2) key by auto
  next
    case (Update_api_key k)
    then obtain e where "update_api_key lib self k h = (e, self', h')"
      using called.hyps(2) by (auto split: prod.splits option.splits)
    from update_api_key_preserves[OF key this] show ?thesis by blast
  next
    case (Process_response t)
    then show ?thesis using called.hyps(2) key by (auto split: sum.splits)
  qed
next
  case (allocated self h c r h')
  then show ?case using handle_built_allocated by blast
qed

lemma settled_handle_current:
  "settled lib LLM_CONFIG self h \<Longrightarrow> handle_current self h"
proof (induction rule: settled.induct)
  case (built mt key h0 self h)
  then show ?case by (simp add: LLMModel_init_Inr)
next
  case (rebuilt self h k self' h')
  from reachable_handle_built[OF rebuilt(1)] obtain key where key: "handle_built self h key"
    by blast
  have api: "api_key self' = Some k"
    using update_api_key_built[OF key, of lib k] rebuilt(2) by (auto split: option.splits)
  from update_api_key_preserves[OF key rebuilt(2)] show ?case
    by (simp add: handle_current_def api)
next
  case (elsewhere self h c r h')
  from elsewhere.IH elsewhere.hyps(2) show ?case
    unfolding handle_current_def by (rule handle_built_allocated)
qed

lemma settled_reachable:
  "settled lib LLM_CONFIG self h \<Longrightarrow> reachable lib LLM_CONFIG self h"
proof (induction rule: settled.induct)
  case (built mt key h0 self h)
  then show ?case by (rule reachable.constructed)
next
  case (rebuilt self h k self' h')
  have "call lib (Update_api_key k) self h = (Returned_none, self', h')"
    using rebuilt(2) by simp
  with rebuilt(1) show ?case by (rule reachable.called)
next
  case (elsewhere self h c r h')
  then show ?case by (blast intro: reachable.allocated)
qed

lemma handle_built_fields:
  assumes "handle_built self h key"
  shows "\<exists>kw. objs h (get_model self) = Some (client_class (model_type self) kw)
           \<and> kw_api_key kw = key \<and> kw_timeout kw = 600
           \<and> config self (str_of ''model_name'') = Some (kw_model_name kw)
           \<and> config self (str_of ''temperature'') = Some (kw_temperature kw)
           \<and> config self (str_of ''max_tokens'') = Some (kw_max_tokens kw)"
proof -
  from assms obtain kw where kw: "constructor_args self 600 = Inr kw"
      "objs h (model self) = Some (client_class (model_type self) (kw\<lparr>kw_api_key := key\<rparr>))"
    by (auto simp: handle_built_def split: sum.splits)
  from kw(1) show ?thesis using kw(2)
    by (auto simp: constructor_args_Inr get_model_def)
qed

section \<open>Construction\<close>

lemma LLMModel_init_no_entry:
  "LLM_CONFIG mt = None \<Longrightarrow> LLMModel_init lib LLM_CONFIG mt key h = Inl (KeyError mt)"
  by (simp add: LLMModel_init_def and_then_def getitem_def)

lemma LLMModel_init_ValueError:
  assumes "LLM_CONFIG mt = Some cfg" "mt \<noteq> str_of ''gpt4''" "mt \<noteq> str_of ''claude''"
  shows "LLMModel_init lib LLM_CONFIG mt key h
           = Inl (ValueError (str_of ''Unsupported model type: '' @ mt))"
  using assms
  by (simp add: LLMModel_init_def and_then_def getitem_def initialize_model_unsupported)

lemma LLMModel_init_entry:
  assumes "mt = str_of ''gpt4'' \<or> mt = str_of ''claude''" "LLM_CONFIG mt = Some cfg"
    "cfg (str_of ''model_name'') = Some mn" "cfg (str_of ''temperature'') = Some t"
    "cfg (str_of ''max_tokens'') = Some k"
    "c = client_class mt \<lparr>kw_model_name = mn, kw_temperature = t, kw_max_tokens = k,
                           kw_api_key = key, kw_timeout = 600\<rparr>"
  shows "LLMModel_init lib LLM_CONFIG mt key h =
           (case lib c of
              Some e \<Rightarrow> Inl e
            | None \<Rightarrow>
                Inr (\<lparr>model_type = mt, config = cfg, api_key = key, model = next_ref h\<rparr>,
                     h\<lparr>objs := (objs h)(next_ref h \<mapsto> c), next_ref := Suc (next_ref h)\<rparr>))"
proof -
  let ?pre = "\<lparr>model_type = mt, config = cfg, api_key = key\<rparr>"
  have "constructor_args ?pre 600 = Inr \<lparr>kw_model_name = mn, kw_temperature = t,
          kw_max_tokens = k, kw_api_key = key, kw_timeout = 600\<rparr>"
    using assms(3-5) by (simp add: constructor_args_Inr)
  then have "initialize_model lib ?pre h = construct lib c h"
    using assms(1,6) by (simp add: initialize_model_supported)
  then show ?thesis
    using assms(2)
    by (simp add: LLMModel_init_def and_then_def getitem_def construct_def new_object_def
          split: option.splits)
qed

lemma spec_config_entry:
  assumes "spec_config LLM_CONFIG" "mt = str_of ''gpt4'' \<or> mt = str_of ''claude''"
  shows "\<exists>cfg mn t k. LLM_CONFIG mt = Some cfg \<and> cfg (str_of ''model_name'') = Some mn
           \<and> cfg (str_of ''temperature'') = Some t \<and> cfg (str_of ''max_tokens'') = Some k"
proof -
  have "mt \<in> dom LLM_CONFIG" using assms by (auto simp: spec_config_def)
  then obtain cfg where cfg: "LLM_CONFIG mt = Some cfg" by blast
  then have "cfg \<in> ran LLM_CONFIG" by (auto simp: ran_def)
  then have "{str_of ''model_name'', str_of ''temperature'', str_of ''max_tokens''} \<subseteq> dom cfg"
    using assms(1) by (simp add: spec_config_def)
  then show ?thesis using cfg by auto
qed

text \<open>The two example runs: a construction with \<^verbatim>\<open>"gpt4"\<close>, and a key update after it.\<close>

lemma sample_gpt4:
  "LLMModel_init lib sample_config (str_of ''gpt4'') key empty_store =
     (case lib (gpt4_handle key) of
        Some e \<Rightarrow> Inl e
      | None \<Rightarrow> Inr (gpt4_instance key, gpt4_store key))"
  by (subst LLMModel_init_entry[where mn = "PyStr (str_of ''gpt-4'')" and t = "PyFloat 0"
        and k = "PyInt 4096" and cfg = gpt4_entry and c = "gpt4_handle key"])
     (simp_all add: sample_config_def gpt4_entry_def str_of_def empty_store_def
        client_class_def gpt4_handle_def gpt4_instance_def gpt4_store_def
        split: option.splits)

lemma handle_built_sample: "handle_built (gpt4_instance key') (gpt4_store key) key"
  by (simp add: handle_built_def gpt4_instance_def gpt4_store_def gpt4_handle_def
        constructor_args_def and_then_def getitem_def gpt4_entry_def str_of_def client_class_def)

lemma sample_update:
  "update_api_key lib (gpt4_instance key') k (gpt4_store key) =
     (case lib (gpt4_handle (Some k)) of
        Some e \<Rightarrow> (Some e, gpt4_instance (Some k), gpt4_store key)
      | None \<Rightarrow>
          (None, (gpt4_instance (Some k))\<lparr>model := 1\<rparr>,
           \<lparr>objs = [0 \<mapsto> gpt4_handle key, 1 \<mapsto> gpt4_handle (Some k)], next_ref = 2\<rparr>))"
proof -
  from update_api_key_built[OF handle_built_sample[of key' key], of lib k]
  show ?thesis
    by (auto simp: gpt4_instance_def gpt4_store_def gpt4_handle_def client_class_def
          split: option.splits)
qed

lemma sample_gpt4_refusing:
  "key \<noteq> Some [] \<Longrightarrow>
     LLMModel_init refusing_empty_key sample_config (str_of ''gpt4'') key empty_store
       = Inr (gpt4_instance key, gpt4_store key)"
  by (simp add: sample_gpt4 refusing_empty_key_def gpt4_handle_def)

lemma sample_update_refusing:
  "update_api_key refusing_empty_key (gpt4_instance key') k (gpt4_store key) =
     (if k = [] then
        (Some (ClientError (str_of ''empty key'')), gpt4_instance (Some []), gpt4_store key)
      else
        (None, (gpt4_instance (Some k))\<lparr>model := 1\<rparr>,
         \<lparr>objs = [0 \<mapsto> gpt4_handle key, 1 \<mapsto> gpt4_handle (Some k)], next_ref = 2\<rparr>))"
  by (simp add: sample_update refusing_empty_key_def gpt4_handle_def)

lemma sample_keys: "str_of ''key1'' \<noteq> []" "str_of ''key2'' \<noteq> []"
  by (simp_all add: str_of_def)


text \<open>
  Claim C1. For a provider other than \<^verbatim>\<open>"gpt4"\<close> and \<^verbatim>\<open>"claude"\<close> the claim expects the
  \<^verbatim>\<open>ValueError\<close> "Unsupported model type" from the constructor. What the code does: with
  a configuration whose keys are the two providers, the subscript \<^verbatim>\<open>LLM_CONFIG[model_type]\<close>
  raises \<^verbatim>\<open>KeyError\<close> first, for every such provider and whatever the client library, so
  the \<^verbatim>\<open>ValueError\<close> branch of \<open>initialize_model\<close> is never reached.
\<close>

theorem init_unknown_provider_raises_KeyError:
  assumes "spec_config LLM_CONFIG" "mt \<noteq> str_of ''gpt4''" "mt \<noteq> str_of ''claude''"
  shows "LLMModel_init lib LLM_CONFIG mt key h = Inl (KeyError mt)"
proof -
  have "mt \<notin> dom LLM_CONFIG" using assms by (simp add: spec_config_def)
  then show ?thesis by (simp add: LLMModel_init_no_entry domIff)
qed

theorem init_unknown_provider_raises_KeyError_witness:
  "LLMModel_init accepting sample_config (str_of ''llama'') None empty_store
     = Inl (KeyError (str_of ''llama''))"
  using init_unknown_provider_raises_KeyError
          [OF spec_config_sample, of "str_of ''llama''" accepting None empty_store]
  by (simp add: str_of_def)

text \<open>
  Claim C2 says that the construction succeeds for both providers and every key. It does
  not when the client constructor raises: with a library that refuses an empty key,
  \<^verbatim>\<open>LLMModel("gpt4", "")\<close> raises the library's exception.
\<close>

theorem init_supported_provider_counterexample:
  "LLMModel_init refusing_empty_key sample_config (str_of ''gpt4'') (Some []) empty_store
     = Inl (ClientError (str_of ''empty key''))"
  by (simp add: sample_gpt4 refusing_empty_key_def gpt4_handle_def)

text \<open>
  Claim C2, amended. For \<^verbatim>\<open>"gpt4"\<close> and for \<^verbatim>\<open>"claude"\<close>, with any key, the constructor
  calls the client constructor of the provider's class with the model name, the
  temperature and the token budget of the provider's configuration entry, the key passed
  and a timeout of 600 seconds. If that call raises, the construction raises the same
  exception; if it returns, the construction returns and \<open>get_model\<close> gives the handle
  built from exactly these arguments.
\<close>

theorem init_supported_provider:
  assumes "spec_config LLM_CONFIG" "mt = str_of ''gpt4'' \<or> mt = str_of ''claude''"
  shows "\<exists>cfg mn t k c.
           LLM_CONFIG mt = Some cfg \<and> cfg (str_of ''model_name'') = Some mn
           \<and> cfg (str_of ''temperature'') = Some t \<and> cfg (str_of ''max_tokens'') = Some k
           \<and> c = (if mt = str_of ''gpt4'' then ChatOpenAI else ChatAnthropic)
                    \<lparr>kw_model_name = mn, kw_temperature = t, kw_max_tokens = k,
                     kw_api_key = key, kw_timeout = 600\<rparr>
           \<and> (case lib c of
                 Some e \<Rightarrow> LLMModel_init lib LLM_CONFIG mt key h = Inl e
               | None \<Rightarrow>
                   (\<exists>self h'. LLMModel_init lib LLM_CONFIG mt key h = Inr (self, h')
                      \<and> objs h' (get_model self) = Some c))"
proof -
  from spec_config_entry[OF assms] obtain cfg mn t k where
    c: "LLM_CONFIG mt = Some cfg" "cfg (str_of ''model_name'') = Some mn"
       "cfg (str_of ''temperature'') = Some t" "cfg (str_of ''max_tokens'') = Some k"
    by blast
  define c where "c = client_class mt \<lparr>kw_model_name = mn, kw_temperature = t,
                        kw_max_tokens = k, kw_api_key = key, kw_timeout = 600\<rparr>"
  have run: "case lib c of
        Some e \<Rightarrow> LLMModel_init lib LLM_CONFIG mt key h = Inl e
      | None \<Rightarrow>
          (\<exists>self h'. LLMModel_init lib LLM_CONFIG mt key h = Inr (self, h')
             \<and> objs h' (get_model self) = Some c)"
    using LLMModel_init_entry[of mt LLM_CONFIG cfg mn t k c key lib h, OF assms(2) c c_def]
    by (simp add: get_model_def split: option.splits)
  have "c = (if mt = str_of ''gpt4'' then ChatOpenAI else ChatAnthropic)
                    \<lparr>kw_model_name = mn, kw_temperature = t, kw_max_tokens = k,
                     kw_api_key = key, kw_timeout = 600\<rparr>"
    by (simp add: c_def client_class_def)
  with c run show ?thesis by blast
qed

theorem init_supported_provider_witness:
  "\<exists>self h'. LLMModel_init accepting sample_config (str_of ''claude'') (Some (str_of ''key1''))
                 empty_store = Inr (self, h')
     \<and> objs h' (get_model self) =
          Some (ChatAnthropic
                  \<lparr>kw_model_name = PyStr (str_of ''claude-3''), kw_temperature = PyFloat 0,
                   kw_max_tokens = PyInt 2048, kw_api_key = Some (str_of ''key1''),
                   kw_timeout = 600\<rparr>)"
  using init_supported_provider [OF spec_config_sample, of "str_of ''claude''"
          "Some (str_of ''key1'')" accepting empty_store]
  by (auto simp: sample_config_def claude_entry_def str_of_def accepting_def)

section \<open>Key updates and defaults\<close>

text \<open>
  Outside the reachable states: were \<^verbatim>\<open>model_type\<close> overwritten with an unsupported
  provider, a key update would raise after the new key is stored, and keep the old handle.
\<close>

lemma update_api_key_unsupported:
  assumes "model_type self \<noteq> str_of ''gpt4''" "model_type self \<noteq> str_of ''claude''"
  shows "update_api_key lib self k h =
           (Some (ValueError (str_of ''Unsupported model type: '' @ model_type self)),
            self\<lparr>api_key := Some k\<rparr>, h)"
  using assms by (simp add: update_api_key_def initialize_model_unsupported)

text \<open>
  Claim C3 says that in every reachable state the handle agrees with the stored key, and
  that a key update that raises shows no disagreement. The code stores the key, then
  rebuilds: with a library that refuses an empty key, \<^verbatim>\<open>LLMModel("gpt4", "key1")\<close>
  followed by \<^verbatim>\<open>update_api_key("")\<close> reaches a state whose stored key is empty while its
  handle is the one built with \<^verbatim>\<open>"key1"\<close>.
\<close>

theorem handle_consistent_counterexample:
  "reachable refusing_empty_key sample_config
     (gpt4_instance (Some [])) (gpt4_store (Some (str_of ''key1'')))
   \<and> api_key (gpt4_instance (Some [])) = Some []
   \<and> objs (gpt4_store (Some (str_of ''key1''))) (get_model (gpt4_instance (Some [])))
       = Some (gpt4_handle (Some (str_of ''key1'')))
   \<and> kw_api_key (client_kwargs (gpt4_handle (Some (str_of ''key1'')))) = Some (str_of ''key1'')"
proof -
  let ?k1 = "Some (str_of ''key1'')"
  have "LLMModel_init refusing_empty_key sample_config (str_of ''gpt4'') ?k1 empty_store
          = Inr (gpt4_instance ?k1, gpt4_store ?k1)"
    by (simp add: sample_gpt4_refusing sample_keys)
  then have r0: "reachable refusing_empty_key sample_config (gpt4_instance ?k1) (gpt4_store ?k1)"
    by (rule reachable.constructed)
  have "call refusing_empty_key (Update_api_key []) (gpt4_instance ?k1) (gpt4_store ?k1)
          = (Raised (ClientError (str_of ''empty key'')), gpt4_instance (Some []), gpt4_store ?k1)"
    by (simp add: sample_update_refusing)
  with r0 have "reachable refusing_empty_key sample_config
                  (gpt4_instance (Some [])) (gpt4_store ?k1)"
    by (rule reachable.called)
  then show ?thesis
    by (simp add: gpt4_instance_def gpt4_store_def gpt4_handle_def get_model_def)
qed

text \<open>
  Claim C3, amended. In every state in which the last assignment to the key was followed
  by a constructor call that returned (after a construction, after a key update that
  returned, whatever happened before it), the handle agrees with the stored key and the
  provider: it is an object of the provider's class built with the stored key. A key
  update in such a state calls the client constructor with the new key. If the call
  returns, the update returns with the new key stored and the handle built with it, in a
  state of the same kind. If the call raises, the update raises the same exception and is
  not atomic: the new key is stored and the handle is still the old one.
\<close>

theorem settled_handle_consistent:
  assumes "settled lib LLM_CONFIG self h"
  shows "(model_type self = str_of ''gpt4'' \<or> model_type self = str_of ''claude'')
       \<and> (\<exists>kw. objs h (get_model self) =
                   Some ((if model_type self = str_of ''gpt4'' then ChatOpenAI else ChatAnthropic) kw)
               \<and> kw_api_key kw = api_key self)
       \<and> (\<forall>k. \<exists>c'. kw_api_key (client_kwargs c') = Some k
            \<and> (case lib c' of
                  None \<Rightarrow>
                    (\<exists>self' h'. update_api_key lib self k h = (None, self', h')
                       \<and> settled lib LLM_CONFIG self' h'
                       \<and> api_key self' = Some k \<and> model_type self' = model_type self
                       \<and> objs h' (get_model self') = Some c')
                | Some e \<Rightarrow>
                    update_api_key lib self k h = (Some e, self\<lparr>api_key := Some k\<rparr>, h)))"
proof -
  have cur: "handle_built self h (api_key self)"
    using settled_handle_current[OF assms] by (simp add: handle_current_def)
  have 1: "model_type self = str_of ''gpt4'' \<or> model_type self = str_of ''claude''"
    using cur by (simp add: handle_built_def)
  have 2: "\<exists>kw. objs h (get_model self) =
                   Some ((if model_type self = str_of ''gpt4'' then ChatOpenAI else ChatAnthropic) kw)
               \<and> kw_api_key kw = api_key self"
    using handle_built_fields[OF cur] by (auto simp: client_class_def)
  have 3: "\<exists>c'. kw_api_key (client_kwargs c') = Some k
            \<and> (case lib c' of
                  None \<Rightarrow>
                    (\<exists>self' h'. update_api_key lib self k h = (None, self', h')
                       \<and> settled lib LLM_CONFIG self' h'
                       \<and> api_key self' = Some k \<and> model_type self' = model_type self
                       \<and> objs h' (get_model self') = Some c')
                | Some e \<Rightarrow>
                    update_api_key lib self k h = (Some e, self\<lparr>api_key := Some k\<rparr>, h))" for k
  proof -
    from update_api_key_built[OF cur, of lib k] obtain kw where
      upd: "update_api_key lib self k h =
               (case lib (client_class (model_type self) (kw\<lparr>kw_api_key := Some k\<rparr>)) of
                  Some e \<Rightarrow> (Some e, self\<lparr>api_key := Some k\<rparr>, h)
                | None \<Rightarrow>
                    (None, self\<lparr>api_key := Some k, model := next_ref h\<rparr>,
                     h\<lparr>objs := (objs h)(next_ref h \<mapsto>
                            client_class (model_type self) (kw\<lparr>kw_api_key := Some k\<rparr>)),
                       next_ref := Suc (next_ref h)\<rparr>))"
      by blast
    let ?c = "client_class (model_type self) (kw\<lparr>kw_api_key := Some k\<rparr>)"
    have key: "kw_api_key (client_kwargs ?c) = Some k" by (simp add: client_class_def)
    have "case lib ?c of
                  None \<Rightarrow>
                    (\<exists>self' h'. update_api_key lib self k h = (None, self', h')
                       \<and> settled lib LLM_CONFIG self' h'
                       \<and> api_key self' = Some k \<and> model_type self' = model_type self
                       \<and> objs h' (get_model self') = Some ?c)
                | Some e \<Rightarrow>
                    update_api_key lib self k h = (Some e, self\<lparr>api_key := Some k\<rparr>, h)"
    proof (cases "lib ?c")
      case None
      let ?s = "self\<lparr>api_key := Some k, model := next_ref h\<rparr>"
      let ?h = "h\<lparr>objs := (objs h)(next_ref h \<mapsto> ?c), next_ref := Suc (next_ref h)\<rparr>"
      have u: "update_api_key lib self k h = (None, ?s, ?h)" using upd None by simp
      have "settled lib LLM_CONFIG ?s ?h"
        using settled_reachable[OF assms] u by (rule settled.rebuilt)
      then show ?thesis using None u by (simp add: get_model_def)
    next
      case (Some e)
      then show ?thesis using upd by simp
    qed
    with key show ?thesis by blast
  qed
  show ?thesis using 1 2 3 by blast
qed

theorem settled_handle_consistent_witness:
  "settled refusing_empty_key sample_config
     ((gpt4_instance (Some (str_of ''key2'')))\<lparr>model := 1\<rparr>)
     \<lparr>objs = [0 \<mapsto> gpt4_handle (Some (str_of ''key1'')),
              1 \<mapsto> gpt4_handle (Some (str_of ''key2''))], next_ref = 2\<rparr>
   \<and> (\<exists>kw. gpt4_handle (Some (str_of ''key2'')) = ChatOpenAI kw
          \<and> kw_api_key kw = api_key ((gpt4_instance (Some (str_of ''key2'')))\<lparr>model := 1\<rparr>))"
proof -
  let ?k1 = "Some (str_of ''key1'')"
  let ?s2 = "(gpt4_instance (Some (str_of ''key2'')))\<lparr>model := 1\<rparr>"
  let ?h2 = "\<lparr>objs = [0 \<mapsto> gpt4_handle ?k1, 1 \<mapsto> gpt4_handle (Some (str_of ''key2''))],
              next_ref = 2\<rparr>"
  have "LLMModel_init refusing_empty_key sample_config (str_of ''gpt4'') ?k1 empty_store
          = Inr (gpt4_instance ?k1, gpt4_store ?k1)"
    by (simp add: sample_gpt4_refusing sample_keys)
  then have r0: "reachable refusing_empty_key sample_config (gpt4_instance ?k1) (gpt4_store ?k1)"
    by (rule reachable.constructed)
  have "call refusing_empty_key (Update_api_key []) (gpt4_instance ?k1) (gpt4_store ?k1)
          = (Raised (ClientError (str_of ''empty key'')), gpt4_instance (Some []), gpt4_store ?k1)"
    by (simp add: sample_update_refusing)
  with r0 have r1: "reachable refusing_empty_key sample_config
                  (gpt4_instance (Some [])) (gpt4_store ?k1)"
    by (rule reachable.called)
  have "update_api_key refusing_empty_key (gpt4_instance (Some [])) (str_of ''key2'')
          (gpt4_store ?k1) = (None, ?s2, ?h2)"
    by (simp add: sample_update_refusing sample_keys)
  with r1 have st: "settled refusing_empty_key sample_config ?s2 ?h2"
    by (rule settled.rebuilt)
  show ?thesis
    using settled_handle_consistent [OF st] st
    by (auto simp: get_model_def gpt4_instance_def str_of_def)
qed

text \<open>
  Claim C4 says that after \<^verbatim>\<open>update_api_key(newCred)\<close>, for every new key, \<open>get_model\<close>
  gives a different handle that reflects the new key. It does not when the client
  constructor raises on the new key: with a library that refuses an empty key, after
  \<^verbatim>\<open>LLMModel("gpt4", "key1")\<close> the call \<^verbatim>\<open>update_api_key("")\<close> raises, and \<open>get_model\<close>
  gives the same handle as before.
\<close>

theorem update_api_key_counterexample:
  "LLMModel_init refusing_empty_key sample_config (str_of ''gpt4'') (Some (str_of ''key1''))
     empty_store
     = Inr (gpt4_instance (Some (str_of ''key1'')), gpt4_store (Some (str_of ''key1'')))
   \<and> update_api_key refusing_empty_key (gpt4_instance (Some (str_of ''key1''))) []
       (gpt4_store (Some (str_of ''key1'')))
     = (Some (ClientError (str_of ''empty key'')), gpt4_instance (Some []),
        gpt4_store (Some (str_of ''key1'')))
   \<and> get_model (gpt4_instance (Some [])) = get_model (gpt4_instance (Some (str_of ''key1'')))"
  by (simp add: sample_gpt4_refusing sample_update_refusing sample_keys)
     (simp add: get_model_def gpt4_instance_def)

text \<open>
  Claim C4, amended. On an instance reached through the class, \<open>update_api_key\<close> with a
  new key calls the client constructor of the same class with the arguments of the old
  handle and the new key in place of the key. The provider and the configuration of the
  instance are unchanged, the new key is stored, and the old handle is untouched. If the
  call returns, the update returns and \<open>get_model\<close> gives a reference different from the
  one before, to the handle built with the new key and the same model name, temperature,
  token budget and timeout. If the call raises, the update raises the same exception and
  \<open>get_model\<close> still gives the old handle.
\<close>

theorem update_api_key_rebuilds_handle:
  assumes "reachable lib LLM_CONFIG self h" "update_api_key lib self newCred h = (e, self', h')"
  shows "model_type self' = model_type self \<and> config self' = config self
       \<and> api_key self' = Some newCred
       \<and> (\<exists>kw kw'. objs h (get_model self) = Some (client_class (model_type self) kw)
              \<and> objs h' (get_model self) = Some (client_class (model_type self) kw)
              \<and> kw' = kw\<lparr>kw_api_key := Some newCred\<rparr>
              \<and> e = lib (client_class (model_type self) kw')
              \<and> (case e of
                    None \<Rightarrow> get_model self' \<noteq> get_model self
                       \<and> objs h' (get_model self') = Some (client_class (model_type self) kw')
                  | Some x \<Rightarrow> get_model self' = get_model self \<and> h' = h))"
proof -
  from reachable_handle_built[OF assms(1)] obtain key where built: "handle_built self h key"
    by blast
  have lt: "model self < next_ref h" using built by (simp add: handle_built_def)
  from update_api_key_built[OF built, of lib newCred] obtain kw where
    old: "objs h (model self) = Some (client_class (model_type self) kw)" and
    upd: "update_api_key lib self newCred h =
               (case lib (client_class (model_type self) (kw\<lparr>kw_api_key := Some newCred\<rparr>)) of
                  Some e \<Rightarrow> (Some e, self\<lparr>api_key := Some newCred\<rparr>, h)
                | None \<Rightarrow>
                    (None, self\<lparr>api_key := Some newCred, model := next_ref h\<rparr>,
                     h\<lparr>objs := (objs h)(next_ref h \<mapsto>
                            client_class (model_type self) (kw\<lparr>kw_api_key := Some newCred\<rparr>)),
                       next_ref := Suc (next_ref h)\<rparr>))"
    by blast
  let ?c = "client_class (model_type self) (kw\<lparr>kw_api_key := Some newCred\<rparr>)"
  show ?thesis
  proof (cases "lib ?c")
    case None
    then have r: "e = None" "self' = self\<lparr>api_key := Some newCred, model := next_ref h\<rparr>"
        "h' = h\<lparr>objs := (objs h)(next_ref h \<mapsto> ?c), next_ref := Suc (next_ref h)\<rparr>"
      using upd assms(2) by simp_all
    have "objs h (get_model self) = Some (client_class (model_type self) kw)
        \<and> objs h' (get_model self) = Some (client_class (model_type self) kw)
        \<and> e = lib ?c
        \<and> (case e of
              None \<Rightarrow> get_model self' \<noteq> get_model self \<and> objs h' (get_model self') = Some ?c
            | Some x \<Rightarrow> get_model self' = get_model self \<and> h' = h)"
      using old lt None by (simp add: r get_model_def)
    then have "\<exists>kw kw'. objs h (get_model self) = Some (client_class (model_type self) kw)
              \<and> objs h' (get_model self) = Some (client_class (model_type self) kw)
              \<and> kw' = kw\<lparr>kw_api_key := Some newCred\<rparr>
              \<and> e = lib (client_class (model_type self) kw')
              \<and> (case e of
                    None \<Rightarrow> get_model self' \<noteq> get_model self
                       \<and> objs h' (get_model self') = Some (client_class (model_type self) kw')
                  | Some x \<Rightarrow> get_model self' = get_model self \<and> h' = h)"
      by (rule_tac x = kw in exI, rule_tac x = "kw\<lparr>kw_api_key := Some newCred\<rparr>" in exI)
         simp
    then show ?thesis by (simp add: r)
  next
    case (Some x)
    then have r: "e = Some x" "self' = self\<lparr>api_key := Some newCred\<rparr>" "h' = h"
      using upd assms(2) by simp_all
    have "objs h (get_model self) = Some (client_class (model_type self) kw)
        \<and> objs h' (get_model self) = Some (client_class (model_type self) kw)
        \<and> e = lib ?c
        \<and> (case e of
              None \<Rightarrow> get_model self' \<noteq> get_model self \<and> objs h' (get_model self') = Some ?c
            | Some x \<Rightarrow> get_model self' = get_model self \<and> h' = h)"
      using old Some by (simp add: r get_model_def)
    then have "\<exists>kw kw'. objs h (get_model self) = Some (client_class (model_type self) kw)
              \<and> objs h' (get_model self) = Some (client_class (model_type self) kw)
              \<and> kw' = kw\<lparr>kw_api_key := Some newCred\<rparr>
              \<and> e = lib (client_class (model_type self) kw')
              \<and> (case e of
                    None \<Rightarrow> get_model self' \<noteq> get_model self
                       \<and> objs h' (get_model self') = Some (client_class (model_type self) kw')
                  | Some x \<Rightarrow> get_model self' = get_model self \<and> h' = h)"
      by (rule_tac x = kw in exI, rule_tac x = "kw\<lparr>kw_api_key := Some newCred\<rparr>" in exI)
         simp
    then show ?thesis by (simp add: r)
  qed
qed

theorem update_api_key_rebuilds_handle_witness:
  "\<exists>self h self' h'.
      LLMModel_init refusing_empty_key sample_config (str_of ''gpt4'') (Some (str_of ''key1''))
        empty_store = Inr (self, h)
    \<and> update_api_key refusing_empty_key self (str_of ''key2'') h = (None, self', h')
    \<and> get_model self' \<noteq> get_model self
    \<and> objs h (get_model self) = Some (gpt4_handle (Some (str_of ''key1'')))
    \<and> objs h' (get_model self) = Some (gpt4_handle (Some (str_of ''key1'')))
    \<and> objs h' (get_model self') = Some (gpt4_handle (Some (str_of ''key2'')))"
proof -
  let ?k1 = "Some (str_of ''key1'')"
  have init: "LLMModel_init refusing_empty_key sample_config (str_of ''gpt4'') ?k1 empty_store
          = Inr (gpt4_instance ?k1, gpt4_store ?k1)"
    by (simp add: sample_gpt4_refusing sample_keys)
  then have r: "reachable refusing_empty_key sample_config (gpt4_instance ?k1) (gpt4_store ?k1)"
    by (rule reachable.constructed)
  obtain e self' h' where
    upd: "update_api_key refusing_empty_key (gpt4_instance ?k1) (str_of ''key2'') (gpt4_store ?k1)
            = (e, self', h')"
    by (metis prod_cases3)
  have e: "e = None"
    using upd by (simp add: sample_update_refusing sample_keys)
  have old: "objs (gpt4_store ?k1) (get_model (gpt4_instance ?k1)) = Some (gpt4_handle ?k1)"
    by (simp add: gpt4_store_def gpt4_instance_def get_model_def)
  have cls: "client_class (model_type (gpt4_instance ?k1)) kw = ChatOpenAI kw" for kw
    by (simp add: client_class_def gpt4_instance_def)
  show ?thesis
    using update_api_key_rebuilds_handle [OF r upd] init upd e old
    by (auto simp: cls gpt4_handle_def)
qed

text \<open>
  Claim C10. A construction without \<^verbatim>\<open>model_type\<close> is a construction with \<^verbatim>\<open>"gpt4"\<close>; a
  construction without \<^verbatim>\<open>api_key\<close> is one with \<^verbatim>\<open>None\<close>, and when it returns, \<^verbatim>\<open>None\<close>
  is the stored key and the key the client constructor was given.
\<close>

theorem constructor_defaults:
  "LLMModel_new lib LLM_CONFIG None ak h
     = LLMModel_new lib LLM_CONFIG (Some (str_of ''gpt4'')) ak h
   \<and> LLMModel_new lib LLM_CONFIG mt None h = LLMModel_new lib LLM_CONFIG mt (Some None) h
   \<and> (\<forall>self h'. LLMModel_new lib LLM_CONFIG mt None h = Inr (self, h') \<longrightarrow>
          api_key self = None
        \<and> (\<exists>cl. objs h' (get_model self) = Some cl \<and> kw_api_key (client_kwargs cl) = None))"
proof -
  have "api_key self = None
        \<and> (\<exists>cl. objs h' (get_model self) = Some cl \<and> kw_api_key (client_kwargs cl) = None)"
    if "LLMModel_new lib LLM_CONFIG mt None h = Inr (self, h')" for self h'
  proof -
    from that obtain m where "LLMModel_init lib LLM_CONFIG m None h = Inr (self, h')"
      by (simp add: LLMModel_new_def)
    then have "handle_current self h'" and none: "api_key self = None"
      by (simp_all add: LLMModel_init_Inr)
    then have "handle_built self h' None" by (simp add: handle_current_def)
    then show ?thesis
      using handle_built_fields[of self h' None] none
      by (cases "model_type self = str_of ''gpt4''") (auto simp: client_class_def)
  qed
  then show ?thesis by (simp add: LLMModel_new_def)
qed

theorem constructor_defaults_witness:
  "\<exists>self h'.
      LLMModel_new accepting sample_config None None empty_store = Inr (self, h')
    \<and> model_type self = str_of ''gpt4'' \<and> api_key self = None
    \<and> (\<exists>cl. objs h' (get_model self) = Some cl \<and> kw_api_key (client_kwargs cl) = None)"
proof -
  have new: "LLMModel_new accepting sample_config None None empty_store
               = Inr (gpt4_instance None, gpt4_store None)"
    by (simp add: LLMModel_new_def sample_gpt4 accepting_def)
  have mt: "model_type (gpt4_instance None) = str_of ''gpt4''"
    by (simp add: gpt4_instance_def)
  show ?thesis
    using constructor_defaults [of accepting sample_config None empty_store None] new mt
    by blast
qed

end
